theory Spec2Isabelle
  imports Main
begin

section \<open>JavaScript values\<close>

text \<open>
  The request factory of \<^verbatim>\<open>configureService.ts\<close> handles untyped JavaScript values: call
  inputs, query values, request bodies and decoded response payloads. They are modelled by
  one datatype.

  \<^item> A string is a list of code units below 256 (the Latin-1 part of JavaScript's UTF-16
    strings); one \<^typ>\<open>char\<close> is one code unit.
  \<^item> A number is an integer. Fractions, \<^verbatim>\<open>NaN\<close> and the infinities are floating point and
    have no counterpart here; the decimal rendering is the one JavaScript gives to
    integers of magnitude below \<^verbatim>\<open>1e21\<close>.
  \<^item> An object is the list of its own enumerable properties in the order in which
    \<^verbatim>\<open>Object.entries\<close> lists them. Functions, getters and inherited members are not values
    of the datatype.
\<close>

datatype jsval =
    JUndefined
  | JNull
  | JBool bool
  | JNum int
  | JStr string
  | JArr "jsval list"
  | JObj "(string \<times> jsval) list"

type_synonym jsobj = "(string \<times> jsval) list"

text \<open>What the source can throw or reject with.\<close>

datatype exn =
    TypeError
  | SyntaxError
  | Rejected

text \<open>Truthiness (\<^verbatim>\<open>ToBoolean\<close>), as used by \<^verbatim>\<open>!x\<close>, \<^verbatim>\<open>x || y\<close> and \<^verbatim>\<open>if (x)\<close>.\<close>

fun truthy :: "jsval \<Rightarrow> bool" where
  "truthy JUndefined = False"
| "truthy JNull = False"
| "truthy (JBool b) = b"
| "truthy (JNum n) = (n \<noteq> 0)"
| "truthy (JStr s) = (s \<noteq> [])"
| "truthy (JArr xs) = True"
| "truthy (JObj kvs) = True"

text \<open>\<^verbatim>\<open>a || b\<close> on values.\<close>

definition js_or :: "jsval \<Rightarrow> jsval \<Rightarrow> jsval" where
  "js_or a b = (if truthy a then a else b)"

subsection \<open>Decimal numerals\<close>

definition digit_char :: "nat \<Rightarrow> char" where
  "digit_char d = char_of (48 + d)"

function show_nat :: "nat \<Rightarrow> string" where
  "show_nat n = (if n < 10 then [digit_char n] else show_nat (n div 10) @ [digit_char (n mod 10)])"
  by pat_completeness auto
termination
  by (relation "measure id") auto

declare show_nat.simps [simp del]

definition show_int :: "int \<Rightarrow> string" where
  "show_int i = (if i < 0 then CHR ''-'' # show_nat (nat (- i)) else show_nat (nat i))"

subsection \<open>String conversion\<close>

fun joinWith :: "string \<Rightarrow> string list \<Rightarrow> string" where
  "joinWith sep [] = []"
| "joinWith sep [x] = x"
| "joinWith sep (x # y # ys) = x @ sep @ joinWith sep (y # ys)"

text \<open>
  \<^verbatim>\<open>String(v)\<close>. An array is joined with commas, its \<^verbatim>\<open>null\<close> and \<^verbatim>\<open>undefined\<close> elements
  rendered empty; a plain object is \<^verbatim>\<open>[object Object]\<close>.
\<close>

fun jsToString :: "jsval \<Rightarrow> string" where
  "jsToString JUndefined = ''undefined''"
| "jsToString JNull = ''null''"
| "jsToString (JBool b) = (if b then ''true'' else ''false'')"
| "jsToString (JNum n) = show_int n"
| "jsToString (JStr s) = s"
| "jsToString (JArr xs) =
     joinWith '','' (map (\<lambda>x. case x of JUndefined \<Rightarrow> [] | JNull \<Rightarrow> [] | _ \<Rightarrow> jsToString x) xs)"
| "jsToString (JObj kvs) = ''[object Object]''"

subsection \<open>\<^verbatim>\<open>Object.entries\<close> and property reads\<close>

definition indexed :: "jsval list \<Rightarrow> jsobj" where
  "indexed xs = zip (map show_nat [0..<length xs]) xs"

text \<open>
  \<^verbatim>\<open>Object.entries(v)\<close>: the own enumerable string-keyed properties. It throws on
  \<^verbatim>\<open>undefined\<close> and \<^verbatim>\<open>null\<close>; a string has one entry per code unit, an array one per
  element, a number or boolean none.
\<close>

fun Object_entries :: "jsval \<Rightarrow> exn + jsobj" where
  "Object_entries JUndefined = Inl TypeError"
| "Object_entries JNull = Inl TypeError"
| "Object_entries (JBool b) = Inr []"
| "Object_entries (JNum n) = Inr []"
| "Object_entries (JStr s) = Inr (indexed (map (\<lambda>c. JStr [c]) s))"
| "Object_entries (JArr xs) = Inr (indexed xs)"
| "Object_entries (JObj kvs) = Inr kvs"

text \<open>\<^verbatim>\<open>o.key\<close> on an object given by its property list: \<^verbatim>\<open>undefined\<close> when absent.\<close>

definition ownProp :: "jsobj \<Rightarrow> string \<Rightarrow> jsval" where
  "ownProp kvs key = (case map_of kvs key of Some v \<Rightarrow> v | None \<Rightarrow> JUndefined)"

text \<open>
  \<^verbatim>\<open>v[key]\<close> on any value: own properties only (the elements and \<^verbatim>\<open>length\<close> of a string
  or an array, the properties of an object); reading a property of \<^verbatim>\<open>undefined\<close> or
  \<^verbatim>\<open>null\<close> throws.
\<close>

fun getProp :: "jsval \<Rightarrow> string \<Rightarrow> exn + jsval" where
  "getProp JUndefined key = Inl TypeError"
| "getProp JNull key = Inl TypeError"
| "getProp (JBool b) key = Inr JUndefined"
| "getProp (JNum n) key = Inr JUndefined"
| "getProp (JStr s) key =
     Inr (if key = ''length'' then JNum (int (length s))
          else ownProp (indexed (map (\<lambda>c. JStr [c]) s)) key)"
| "getProp (JArr xs) key =
     Inr (if key = ''length'' then JNum (int (length xs)) else ownProp (indexed xs) key)"
| "getProp (JObj kvs) key = Inr (ownProp kvs key)"

subsection \<open>\<^verbatim>\<open>encodeURIComponent\<close>\<close>

definition code :: "char \<Rightarrow> nat" where
  "code c = of_char c"

definition isDigit :: "char \<Rightarrow> bool" where
  "isDigit c = (48 \<le> code c \<and> code c \<le> 57)"

definition isAlpha :: "char \<Rightarrow> bool" where
  "isAlpha c = ((65 \<le> code c \<and> code c \<le> 90) \<or> (97 \<le> code c \<and> code c \<le> 122))"

definition hex_upper :: "nat \<Rightarrow> char" where
  "hex_upper d = (if d < 10 then char_of (48 + d) else char_of (55 + d))"

definition hex_lower :: "nat \<Rightarrow> char" where
  "hex_lower d = (if d < 10 then char_of (48 + d) else char_of (87 + d))"

definition percent :: "nat \<Rightarrow> string" where
  "percent b = [CHR ''%'', hex_upper (b div 16), hex_upper (b mod 16)]"

text \<open>The characters \<^verbatim>\<open>encodeURIComponent\<close> leaves alone: letters, digits and \<^verbatim>\<open>- _ . ! ~ * ' ( )\<close>.\<close>

definition uriUnescaped :: "char \<Rightarrow> bool" where
  "uriUnescaped c = (isAlpha c \<or> isDigit c \<or> c \<in> set ''-_.!~*()'' \<or> c = CHR 0x27)"

text \<open>
  Every other code unit is written in UTF-8 and each byte as \<^verbatim>\<open>%XX\<close>: one byte below 128,
  two bytes from 128 to 255.
\<close>

definition encodeChar :: "char \<Rightarrow> string" where
  "encodeChar c =
     (if uriUnescaped c then [c]
      else if code c < 128 then percent (code c)
      else percent (192 + code c div 64) @ percent (128 + code c mod 64))"

definition encodeURIComponent :: "string \<Rightarrow> string" where
  "encodeURIComponent s = concat (map encodeChar s)"

subsection \<open>\<^verbatim>\<open>JSON.stringify\<close>\<close>

definition jsonEscape :: "char \<Rightarrow> string" where
  "jsonEscape c =
     (if code c = 8 then [CHR 0x5C, CHR ''b'']
      else if code c = 9 then [CHR 0x5C, CHR ''t'']
      else if code c = 10 then [CHR 0x5C, CHR ''n'']
      else if code c = 12 then [CHR 0x5C, CHR ''f'']
      else if code c = 13 then [CHR 0x5C, CHR ''r'']
      else if code c = 34 then [CHR 0x5C, CHR 0x22]
      else if code c = 92 then [CHR 0x5C, CHR 0x5C]
      else if code c < 32 then
        [CHR 0x5C, CHR ''u'', CHR ''0'', CHR ''0'', hex_lower (code c div 16), hex_lower (code c mod 16)]
      else [c])"

definition jsonQuote :: "string \<Rightarrow> string" where
  "jsonQuote s = CHR 0x22 # concat (map jsonEscape s) @ [CHR 0x22]"

text \<open>
  \<^verbatim>\<open>JSON.stringify(v)\<close> with no replacer and no indentation; \<open>None\<close> is the result
  \<^verbatim>\<open>undefined\<close>. An \<^verbatim>\<open>undefined\<close> array element is written \<^verbatim>\<open>null\<close>, an \<^verbatim>\<open>undefined\<close>
  property is left out.
\<close>

fun JSON_stringify :: "jsval \<Rightarrow> string option" where
  "JSON_stringify JUndefined = None"
| "JSON_stringify JNull = Some ''null''"
| "JSON_stringify (JBool b) = Some (if b then ''true'' else ''false'')"
| "JSON_stringify (JNum n) = Some (show_int n)"
| "JSON_stringify (JStr s) = Some (jsonQuote s)"
| "JSON_stringify (JArr xs) =
     Some (''['' @ joinWith '',''
       (map (\<lambda>x. case JSON_stringify x of None \<Rightarrow> ''null'' | Some t \<Rightarrow> t) xs) @ '']'')"
| "JSON_stringify (JObj kvs) =
     Some (''{'' @ joinWith '',''
       (concat (map (\<lambda>(k, v). case JSON_stringify v of None \<Rightarrow> []
                                | Some t \<Rightarrow> [jsonQuote k @ '':'' @ t]) kvs)) @ ''}'')"

subsection \<open>\<^verbatim>\<open>String.prototype.replace\<close> and \<^verbatim>\<open>String.prototype.match\<close>\<close>

text \<open>The first occurrence of \<open>pat\<close> in a string: what stands before it and what after.\<close>

fun findSplit :: "string \<Rightarrow> string \<Rightarrow> (string \<times> string) option" where
  "findSplit pat [] = (if pat = [] then Some ([], []) else None)"
| "findSplit pat (c # cs) =
     (if take (length pat) (c # cs) = pat then Some ([], drop (length pat) (c # cs))
      else (case findSplit pat cs of None \<Rightarrow> None | Some (b, a) \<Rightarrow> Some (c # b, a)))"

text \<open>
  The replacement text of \<^verbatim>\<open>replace\<close> with a string pattern: \<^verbatim>\<open>$$\<close> is a dollar,
  \<^verbatim>\<open>$&\<close> the match, \<^verbatim>\<open>$`\<close> the text before it and \<^verbatim>\<open>$'\<close> the text after it; there are
  no capture groups, so any other dollar stands for itself.
\<close>

fun getSubstitution :: "string \<Rightarrow> string \<Rightarrow> string \<Rightarrow> string \<Rightarrow> string" where
  "getSubstitution pre matched post [] = []"
| "getSubstitution pre matched post [c] = [c]"
| "getSubstitution pre matched post (c # d # ds) =
     (if c = CHR ''$'' \<and> d = CHR ''$'' then CHR ''$'' # getSubstitution pre matched post ds
      else if c = CHR ''$'' \<and> d = CHR ''&'' then matched @ getSubstitution pre matched post ds
      else if c = CHR ''$'' \<and> d = CHR 0x60 then pre @ getSubstitution pre matched post ds
      else if c = CHR ''$'' \<and> d = CHR 0x27 then post @ getSubstitution pre matched post ds
      else c # getSubstitution pre matched post (d # ds))"

text \<open>\<^verbatim>\<open>target.replace(pat, repl)\<close> for a string \<open>pat\<close>: the first occurrence only.\<close>

definition String_replace :: "string \<Rightarrow> string \<Rightarrow> string \<Rightarrow> string" where
  "String_replace target pat repl =
     (case findSplit pat target of
        None \<Rightarrow> target
      | Some (b, a) \<Rightarrow> b @ getSubstitution b pat a repl @ a)"

text \<open>
  \<^verbatim>\<open>final.match(`{${key}}`)\<close> compiles its string argument to a regular expression.

  \<^item> When the key is made of digits, optionally followed by a comma and further digits,
    the pattern is a braced quantifier with nothing to repeat, and compiling it throws a
    \<^verbatim>\<open>SyntaxError\<close>.
  \<^item> When the key has none of the characters \<^verbatim>\<open>^ $ \ . * + ? ( ) [ ] { } |\<close>, every
    character of the pattern stands for itself and the match succeeds exactly when the
    string contains \<^verbatim>\<open>{key}\<close>.
  \<^item> Any other key makes a pattern with regular-expression operators. What the platform's
    engine does with it is the parameter \<open>engine\<close>, applied to the pattern and the string:
    \<open>Inl\<close> when compiling the pattern throws, otherwise whether a match is found. Nothing
    is assumed about it.
\<close>

definition isBracedQuantifier :: "string \<Rightarrow> bool" where
  "isBracedQuantifier key =
     (let ds = takeWhile isDigit key; rest = dropWhile isDigit key
      in ds \<noteq> [] \<and> (rest = [] \<or> (take 1 rest = '','' \<and> list_all isDigit (drop 1 rest))))"

definition isSyntaxChar :: "char \<Rightarrow> bool" where
  "isSyntaxChar c = (c \<in> set ''^$.*+?()[]{}|'' \<or> c = CHR 0x5C)"

definition placeholder :: "string \<Rightarrow> string" where
  "placeholder key = ''{'' @ key @ ''}''"

definition matchPlaceholder ::
  "(string \<Rightarrow> string \<Rightarrow> exn + bool) \<Rightarrow> string \<Rightarrow> string \<Rightarrow> exn + bool" where
  "matchPlaceholder engine final key =
     (if isBracedQuantifier key then Inl SyntaxError
      else if list_ex isSyntaxChar key then engine (placeholder key) final
      else Inr (findSplit (placeholder key) final \<noteq> None))"

text \<open>
  \<^verbatim>\<open>value.replace(/{(\w+)}/g, (_, key) => f(key))\<close>: every brace pair around one or more
  word characters is replaced by what the callback returns for the enclosed name; the
  scan goes on after the closing brace. A throwing callback ends the whole
  replacement.
\<close>

definition isWordChar :: "char \<Rightarrow> bool" where
  "isWordChar c = (isAlpha c \<or> isDigit c \<or> c = CHR ''_'')"

function replaceTokens :: "(string \<Rightarrow> exn + string) \<Rightarrow> string \<Rightarrow> exn + string" where
  "replaceTokens f [] = Inr []"
| "replaceTokens f (c # cs) =
     (if c = CHR ''{'' \<and> takeWhile isWordChar cs \<noteq> [] \<and> take 1 (dropWhile isWordChar cs) = ''}''
      then (case f (takeWhile isWordChar cs) of
              Inl e \<Rightarrow> Inl e
            | Inr r \<Rightarrow> (case replaceTokens f (drop 1 (dropWhile isWordChar cs)) of
                         Inl e \<Rightarrow> Inl e
                       | Inr t \<Rightarrow> Inr (r @ t)))
      else (case replaceTokens f cs of Inl e \<Rightarrow> Inl e | Inr t \<Rightarrow> Inr (c # t)))"
  by pat_completeness auto
termination
  by (relation "measure (\<lambda>(f, s). length s)")
     (auto simp: less_Suc_eq_le intro: le_trans [OF diff_le_self length_dropWhile_le])

section \<open>The request factory\<close>

subsection \<open>Types of \<^verbatim>\<open>configureService.ts\<close>\<close>

datatype DataTypeKeyT = Json | Text | Blob | FormData

text \<open>
  The descriptor handed to \<^verbatim>\<open>createService\<close>, as it may arrive at run time: every field
  that \<^verbatim>\<open>prepareOptions\<close> guards with \<^verbatim>\<open>||\<close> may be missing (\<open>None\<close>).
\<close>

record Descriptor =
  d_name :: "string option"
  d_baseUrl :: "string option"
  d_path :: "string option"
  d_usesAccessToken :: "bool option"
  d_usesIdToken :: "bool option"
  d_acceptType :: "DataTypeKeyT option"
  d_contentType :: "DataTypeKeyT option"
  d_method :: "string option"
  d_prefer :: "string option"

text \<open>
  \<^verbatim>\<open>OptionsT\<close> as the functions behind \<^verbatim>\<open>prepareOptions\<close> read it. \<^verbatim>\<open>baseUrl\<close> is optional
  because its default \<^verbatim>\<open>process.env.AUTH_URL\<close> may be unset; \<^verbatim>\<open>prefer\<close> is optional in the
  source's type.
\<close>

record OptionsT =
  name :: "string option"
  baseUrl :: "string option"
  path :: string
  usesAccessToken :: bool
  usesIdToken :: bool
  acceptType :: DataTypeKeyT
  contentType :: DataTypeKeyT
  o_method :: string
  o_prefer :: "string option"

text \<open>
  The input object as \<^verbatim>\<open>createHeaders\<close>, \<^verbatim>\<open>createUrl\<close> and \<^verbatim>\<open>createBody\<close> read it: its
  \<^verbatim>\<open>query\<close> and \<^verbatim>\<open>body\<close> properties, \<open>JUndefined\<close> for a missing one.
\<close>

record InputT =
  query :: jsval
  body :: jsval

type_synonym Headers = "(string \<times> string) list"

record CreateRequestOptionsT =
  cfg_headers :: Headers
  cfg_method :: string
  cfg_url :: string
  cfg_body :: "string option"

text \<open>What \<^verbatim>\<open>new Request(url, requestOptions)\<close> is given; \<open>req_body = None\<close> is a
  \<^verbatim>\<open>requestOptions\<close> without a \<^verbatim>\<open>body\<close> attribute.\<close>

record Request =
  req_url :: string
  req_method :: string
  req_headers :: Headers
  req_body :: "string option"

text \<open>
  A response: its status and what each of its body decoders resolves with (\<open>None\<close>: the
  decoder rejects, as \<^verbatim>\<open>json()\<close> does on malformed JSON).
\<close>

record Response =
  status :: int
  resp_json :: "jsval option"
  resp_text :: "jsval option"
  resp_blob :: "jsval option"
  resp_formData :: "jsval option"

record ServiceOutputT =
  error :: jsval
  data :: jsval
  response :: Response

text \<open>
  The collaborators outside the repository: the session token store, the environment
  variable \<^verbatim>\<open>AUTH_URL\<close>, the emptiness test imported from the package \<^verbatim>\<open>is-empty\<close>, the
  platform's regular-expression engine on patterns with operators (see \<open>matchPlaceholder\<close>),
  and the transport. \<open>fetch\<close> stands for \<^verbatim>\<open>fetch(new Request(...))\<close>: \<open>None\<close> is a rejected
  promise or a request the platform refuses to construct.
\<close>

record Env =
  sessionStorage :: "string \<Rightarrow> string option"
  AUTH_URL :: "string option"
  isEmpty :: "jsval \<Rightarrow> bool"
  regexSearch :: "string \<Rightarrow> string \<Rightarrow> exn + bool"
  fetch :: "Request \<Rightarrow> Response option"

subsection \<open>Constants\<close>

fun STRING_OPTIONS_MAP :: "DataTypeKeyT \<Rightarrow> string" where
  "STRING_OPTIONS_MAP Json = ''application/json''"
| "STRING_OPTIONS_MAP Text = ''text/plain''"
| "STRING_OPTIONS_MAP Blob = ''application/octet-stream''"
| "STRING_OPTIONS_MAP FormData = ''multipart/form-data''"

fun RESPONSE_PROCESSORS :: "DataTypeKeyT \<Rightarrow> Response \<Rightarrow> jsval option" where
  "RESPONSE_PROCESSORS Json r = resp_json r"
| "RESPONSE_PROCESSORS Text r = resp_text r"
| "RESPONSE_PROCESSORS Blob r = resp_blob r"
| "RESPONSE_PROCESSORS FormData r = resp_formData r"

subsection \<open>Headers\<close>

text \<open>
  A \<^verbatim>\<open>Headers\<close> object is the list of the \<^verbatim>\<open>append\<close> calls made on it, in order. The value
  argument is converted to a string, so \<^verbatim>\<open>null\<close> is sent as the text \<^verbatim>\<open>null\<close>. The checks and
  the trimming that the platform applies to a header value are not part of the model.
\<close>

definition Headers_append :: "Headers \<Rightarrow> string \<Rightarrow> string \<Rightarrow> Headers" where
  "Headers_append headers n v = headers @ [(n, v)]"

definition nullable :: "string option \<Rightarrow> string" where
  "nullable v = (case v of None \<Rightarrow> ''null'' | Some s \<Rightarrow> s)"

definition handlePreferHeader :: "string \<Rightarrow> jsval \<Rightarrow> exn + string" where
  "handlePreferHeader value q =
     replaceTokens
       (\<lambda>key. case getProp q key of Inl e \<Rightarrow> Inl e | Inr v \<Rightarrow> Inr (jsToString v)) value"

definition createHeaders :: "Env \<Rightarrow> OptionsT \<Rightarrow> InputT \<Rightarrow> exn + Headers" where
  "createHeaders env options input =
     (let accessToken = sessionStorage env ''accessToken'';
          idToken = sessionStorage env ''idToken'';
          contentTypeStr = STRING_OPTIONS_MAP (contentType options);
          acceptTypeStr = STRING_OPTIONS_MAP (acceptType options);
          headers0 = Headers_append [] ''Content-Type''
            (if o_method options = ''get'' then ''x-www-form-urlencoded'' else contentTypeStr);
          headers1 = Headers_append headers0 ''Accept'' acceptTypeStr;
          headers2 =
            (case accessToken of
               None \<Rightarrow> headers1
             | Some t \<Rightarrow>
                 if t \<noteq> [] then
                   Headers_append (Headers_append headers1 ''Authorization'' (''Bearer '' @ t))
                     ''x-id-token'' (nullable idToken)
                 else headers1)
      in case o_prefer options of
           None \<Rightarrow> Inr headers2
         | Some p \<Rightarrow>
             if p \<noteq> [] then
               (case handlePreferHeader p (query input) of
                  Inl e \<Rightarrow> Inl e
                | Inr rendered \<Rightarrow> Inr (Headers_append headers2 ''Prefer'' rendered))
             else Inr headers2)"

subsection \<open>Body and request\<close>

definition createBody :: "Env \<Rightarrow> InputT \<Rightarrow> string option" where
  "createBody env input = (if isEmpty env (body input) then None else JSON_stringify (body input))"

definition createRequest :: "CreateRequestOptionsT \<Rightarrow> Request" where
  "createRequest configuration =
     \<lparr>req_url = cfg_url configuration,
      req_method = cfg_method configuration,
      req_headers = cfg_headers configuration,
      req_body = (case cfg_body configuration of
                    None \<Rightarrow> None
                  | Some b \<Rightarrow> if b \<noteq> [] then Some b else None)\<rparr>"

subsection \<open>Options\<close>

text \<open>\<^verbatim>\<open>s || d\<close> for a string that may be missing: the empty string is falsy too.\<close>

definition orString :: "string option \<Rightarrow> string \<Rightarrow> string" where
  "orString s d = (case s of None \<Rightarrow> d | Some v \<Rightarrow> if v \<noteq> [] then v else d)"

definition orBool :: "bool option \<Rightarrow> bool \<Rightarrow> bool" where
  "orBool b d = (case b of None \<Rightarrow> d | Some v \<Rightarrow> if v then v else d)"

definition orKey :: "DataTypeKeyT option \<Rightarrow> DataTypeKeyT \<Rightarrow> DataTypeKeyT" where
  "orKey k d = (case k of None \<Rightarrow> d | Some v \<Rightarrow> v)"

definition prepareOptions :: "Env \<Rightarrow> Descriptor \<Rightarrow> OptionsT" where
  "prepareOptions env options =
     \<lparr>name = d_name options,
      baseUrl = (case d_baseUrl options of
                   None \<Rightarrow> AUTH_URL env
                 | Some b \<Rightarrow> if b \<noteq> [] then Some b else AUTH_URL env),
      path = orString (d_path options) [],
      usesAccessToken = orBool (d_usesAccessToken options) True,
      usesIdToken = orBool (d_usesIdToken options) True,
      acceptType = orKey (d_acceptType options) Json,
      contentType = orKey (d_contentType options) Json,
      o_method = orString (d_method options) ''POST'',
      o_prefer = None\<rparr>"

definition getResponseProcessor :: "OptionsT \<Rightarrow> Response \<Rightarrow> jsval option" where
  "getResponseProcessor options = RESPONSE_PROCESSORS (acceptType options)"

subsection \<open>URL\<close>

definition encodeQuery :: "jsobj \<Rightarrow> (string \<times> string) list" where
  "encodeQuery entries = map (\<lambda>(key, v). (key, encodeURIComponent (jsToString v))) entries"

definition injectVariable :: "string \<Rightarrow> string \<Rightarrow> string \<Rightarrow> string" where
  "injectVariable target key v = String_replace target (placeholder key) v"

definition handleQueryPiece :: "Env \<Rightarrow> string \<Rightarrow> string \<times> string \<Rightarrow> exn + string" where
  "handleQueryPiece env final kv =
     (case kv of (key, v) \<Rightarrow>
        (case matchPlaceholder (regexSearch env) final key of
           Inl e \<Rightarrow> Inl e
         | Inr hasPieceMatch \<Rightarrow>
             (let queryString = final @ ''&'' @ key @ ''='' @ v
              in Inr (if hasPieceMatch then injectVariable final key v else queryString))))"

text \<open>\<^verbatim>\<open>xs.reduce(f, init)\<close> for a callback that may throw.\<close>

fun reduce :: "('a \<Rightarrow> 'b \<Rightarrow> exn + 'a) \<Rightarrow> 'a \<Rightarrow> 'b list \<Rightarrow> exn + 'a" where
  "reduce f acc [] = Inr acc"
| "reduce f acc (x # xs) = (case f acc x of Inl e \<Rightarrow> Inl e | Inr acc' \<Rightarrow> reduce f acc' xs)"

text \<open>\<^verbatim>\<open>options.baseUrl + options.path\<close>: a missing base URL concatenates as \<^verbatim>\<open>undefined\<close>.\<close>

definition initialUrl :: "OptionsT \<Rightarrow> string" where
  "initialUrl options = (case baseUrl options of None \<Rightarrow> ''undefined'' | Some b \<Rightarrow> b) @ path options"

definition createUrl :: "Env \<Rightarrow> OptionsT \<Rightarrow> InputT \<Rightarrow> exn + string" where
  "createUrl env options input =
     (case Object_entries (query input) of
        Inl e \<Rightarrow> Inl e
      | Inr queryEntries \<Rightarrow>
          reduce (handleQueryPiece env) (initialUrl options) (encodeQuery queryEntries))"

subsection \<open>Input\<close>

definition prepareInput :: "OptionsT \<Rightarrow> jsobj \<Rightarrow> InputT" where
  "prepareInput options input =
     (if \<not> truthy (ownProp input ''body'') \<and> \<not> truthy (ownProp input ''query'') then
        (if o_method options = ''GET''
         then \<lparr>query = JObj input, body = JObj []\<rparr>
         else \<lparr>query = JObj [], body = JObj input\<rparr>)
      else \<lparr>query = js_or (ownProp input ''query'') (JObj []),
            body = js_or (ownProp input ''body'') (JObj [])\<rparr>)"

subsection \<open>The service call\<close>

text \<open>Lines 178 to 190 of \<^verbatim>\<open>createServiceCall\<close>: the request a call hands to the transport.\<close>

definition serviceRequest :: "Env \<Rightarrow> OptionsT \<Rightarrow> jsobj \<Rightarrow> exn + Request" where
  "serviceRequest env preparedOptions input =
     (let preparedInput = prepareInput preparedOptions input
      in case createHeaders env preparedOptions preparedInput of
           Inl e \<Rightarrow> Inl e
         | Inr headers \<Rightarrow>
             (case createUrl env preparedOptions preparedInput of
                Inl e \<Rightarrow> Inl e
              | Inr url \<Rightarrow>
                  Inr (createRequest
                    \<lparr>cfg_headers = headers,
                     cfg_method = o_method preparedOptions,
                     cfg_url = url,
                     cfg_body = createBody env preparedInput\<rparr>)))"

text \<open>
  The asynchronous function that \<^verbatim>\<open>createServiceCall\<close> returns, for given prepared options.
  \<open>Inl\<close> is a rejected promise: something threw while the request was built, the transport
  rejected, or the body decoder rejected.
\<close>

definition serviceCall :: "Env \<Rightarrow> OptionsT \<Rightarrow> jsobj \<Rightarrow> exn + ServiceOutputT" where
  "serviceCall env preparedOptions input =
     (case serviceRequest env preparedOptions input of
        Inl e \<Rightarrow> Inl e
      | Inr request \<Rightarrow>
          (case fetch env request of
             None \<Rightarrow> Inl Rejected
           | Some resp \<Rightarrow>
               (case getResponseProcessor preparedOptions resp of
                  None \<Rightarrow> Inl Rejected
                | Some output \<Rightarrow>
                    Inr \<lparr>error = (if status resp > 399 then output else JNull),
                         data = (if status resp < 400 then output else JNull),
                         response = resp\<rparr>)))"

definition createServiceCall :: "Env \<Rightarrow> Descriptor \<Rightarrow> jsobj \<Rightarrow> exn + ServiceOutputT" where
  "createServiceCall env options input = serviceCall env (prepareOptions env options) input"

text \<open>\<^verbatim>\<open>createService\<close> logs the call and returns what \<^verbatim>\<open>createServiceCall\<close> returns.\<close>

definition createService :: "Env \<Rightarrow> Descriptor \<Rightarrow> jsobj \<Rightarrow> exn + ServiceOutputT" where
  "createService env options input = createServiceCall env options input"

section \<open>The endpoint registry and sample collaborators\<close>

text \<open>Descriptors of \<^verbatim>\<open>services.ts\<close>.\<close>

definition getCustomers :: Descriptor where
  "getCustomers =
     \<lparr>d_name = Some ''getCustomers'',
      d_baseUrl = Some ''https://example.com'',
      d_path = Some ''/api/customers/{customerId}'',
      d_usesAccessToken = Some True,
      d_usesIdToken = Some True,
      d_acceptType = Some Json,
      d_contentType = Some Json,
      d_method = Some ''GET'',
      d_prefer = Some ''example=populated''\<rparr>"

definition getCustomerProfile :: Descriptor where
  "getCustomerProfile =
     \<lparr>d_name = Some ''getCustomerProfile'',
      d_baseUrl = Some ''https://example.com'',
      d_path = Some ''/api/customers/{customerId}/location/{locationId}'',
      d_usesAccessToken = Some True,
      d_usesIdToken = Some True,
      d_acceptType = Some Json,
      d_contentType = Some Json,
      d_method = Some ''GET'',
      d_prefer = Some ''example={customerId}''\<rparr>"

definition logIn :: Descriptor where
  "logIn =
     \<lparr>d_name = Some ''logIn'',
      d_baseUrl = Some ''https://example.com'',
      d_path = Some ''/api/login'',
      d_usesAccessToken = Some False,
      d_usesIdToken = Some False,
      d_acceptType = Some Json,
      d_contentType = Some Json,
      d_method = Some ''POST'',
      d_prefer = None\<rparr>"

text \<open>
  The package \<^verbatim>\<open>is-empty\<close> on the values of \<^typ>\<open>jsval\<close>: \<^verbatim>\<open>undefined\<close>, \<^verbatim>\<open>null\<close>, zero, the
  empty string, the empty array and the object without own properties are empty; a
  boolean never is. The test looks at the top level only.
\<close>

fun isEmptyPackage :: "jsval \<Rightarrow> bool" where
  "isEmptyPackage JUndefined = True"
| "isEmptyPackage JNull = True"
| "isEmptyPackage (JBool b) = False"
| "isEmptyPackage (JNum n) = (n = 0)"
| "isEmptyPackage (JStr s) = (s = [])"
| "isEmptyPackage (JArr xs) = (xs = [])"
| "isEmptyPackage (JObj kvs) = (kvs = [])"

text \<open>A token store holding at most an access token and an id token.\<close>

definition tokenStore :: "string option \<Rightarrow> string option \<Rightarrow> string \<Rightarrow> string option" where
  "tokenStore access ident key =
     (if key = ''accessToken'' then access else if key = ''idToken'' then ident else None)"

text \<open>A response whose JSON decoder resolves with the given payload.\<close>

definition jsonResponse :: "int \<Rightarrow> jsval \<Rightarrow> Response" where
  "jsonResponse st payload =
     \<lparr>status = st, resp_json = Some payload, resp_text = None, resp_blob = None,
      resp_formData = None\<rparr>"

text \<open>
  A browser session with the given tokens whose transport answers every request alike.
  Its regular-expression engine finds no match: the calls made in the session below either
  never ask the engine (keys of literal characters, keys of digits) or ask it for a pattern
  that has no match in their URL.
\<close>

definition session :: "string option \<Rightarrow> string option \<Rightarrow> Response option \<Rightarrow> Env" where
  "session access ident answer =
     \<lparr>sessionStorage = tokenStore access ident,
      AUTH_URL = None,
      isEmpty = isEmptyPackage,
      regexSearch = (\<lambda>pattern subject. Inr False),
      fetch = (\<lambda>request. answer)\<rparr>"

text \<open>A descriptor that leaves every guarded field missing or falsy, and declares a template.\<close>

definition sparseDescriptor :: Descriptor where
  "sparseDescriptor =
     \<lparr>d_name = Some ''sparse'',
      d_baseUrl = None,
      d_path = None,
      d_usesAccessToken = Some False,
      d_usesIdToken = None,
      d_acceptType = None,
      d_contentType = None,
      d_method = Some [],
      d_prefer = Some ''example=populated''\<rparr>"

section \<open>The URL builder in the words of the specification\<close>

text \<open>
  Step 3 of the specification's URL builder: if the accumulated URL contains the literal
  token \<^verbatim>\<open>{key}\<close>, that token is replaced by the value; otherwise \<^verbatim>\<open>&key=value\<close> is
  appended.
\<close>

definition specQueryStep :: "string \<Rightarrow> string \<times> string \<Rightarrow> string" where
  "specQueryStep url kv =
     (case kv of (key, v) \<Rightarrow>
        (case findSplit (placeholder key) url of
           None \<Rightarrow> url @ ''&'' @ key @ ''='' @ v
         | Some (b, a) \<Rightarrow> b @ v @ a))"

text \<open>Steps 1 to 3: seed \<^verbatim>\<open>baseUrl + path\<close>, encode the values, fold the pairs in order.\<close>

definition specCreateUrl :: "OptionsT \<Rightarrow> jsobj \<Rightarrow> string" where
  "specCreateUrl options q = foldl specQueryStep (initialUrl options) (encodeQuery q)"

text \<open>A key whose placeholder pattern is made of literal characters only.\<close>

definition literalKey :: "string \<Rightarrow> bool" where
  "literalKey key = (\<not> isBracedQuantifier key \<and> \<not> list_ex isSyntaxChar key)"

section \<open>Emptiness in the words of the specification\<close>

text \<open>
  The specification's body serializer speaks of a deep-emptiness check. A value is deeply
  empty when it is empty at the top level, or is an array or an object that holds deeply
  empty values only.
\<close>

fun deepEmpty :: "jsval \<Rightarrow> bool" where
  "deepEmpty JUndefined = True"
| "deepEmpty JNull = True"
| "deepEmpty (JBool b) = False"
| "deepEmpty (JNum n) = (n = 0)"
| "deepEmpty (JStr s) = (s = [])"
| "deepEmpty (JArr xs) = list_all deepEmpty xs"
| "deepEmpty (JObj kvs) = list_all deepEmpty (map snd kvs)"

section \<open>Response classification\<close>

lemma serviceCall_Inr:
  assumes "serviceCall env po input = Inr out"
  shows "\<exists>payload. getResponseProcessor po (response out) = Some payload
           \<and> error out = (if status (response out) > 399 then payload else JNull)
           \<and> data out = (if status (response out) < 400 then payload else JNull)"
  using assms
  by (auto simp: serviceCall_def split: sum.splits option.splits)

lemma createServiceCall_Inr:
  assumes "createServiceCall env options input = Inr out"
  shows "\<exists>payload. getResponseProcessor (prepareOptions env options) (response out) = Some payload
           \<and> error out = (if status (response out) > 399 then payload else JNull)
           \<and> data out = (if status (response out) < 400 then payload else JNull)"
  using assms serviceCall_Inr [of env "prepareOptions env options" input out]
  by (simp add: createServiceCall_def)

text \<open>A call resolves when its URL can be built, the transport answers and the decoder resolves.\<close>

lemma createServiceCall_resolves:
  assumes "createUrl env (prepareOptions env d) (prepareInput (prepareOptions env d) input) = Inr url"
    and "\<forall>request. fetch env request = Some resp"
    and "getResponseProcessor (prepareOptions env d) resp = Some payload"
  shows "createServiceCall env d input =
           Inr \<lparr>error = (if status resp > 399 then payload else JNull),
                data = (if status resp < 400 then payload else JNull),
                response = resp\<rparr>"
proof -
  have "o_prefer (prepareOptions env d) = None"
    by (simp add: prepareOptions_def)
  then have "\<exists>hs. createHeaders env (prepareOptions env d)
                 (prepareInput (prepareOptions env d) input) = Inr hs"
    by (auto simp: createHeaders_def Let_def split: option.splits)
  then obtain hs where
    "createHeaders env (prepareOptions env d) (prepareInput (prepareOptions env d) input) = Inr hs"
    by blast
  with assms show ?thesis
    by (simp add: createServiceCall_def serviceCall_def serviceRequest_def Let_def)
qed

text \<open>
  A query key with regular-expression operators does not stop a call: for the key
  \<^verbatim>\<open>filter[name]\<close> the engine finds no match in the URL, the pair is appended, and the call
  resolves.
\<close>

lemma operator_key_call_resolves:
  "serviceRequest (session None None None) (prepareOptions (session None None None) getCustomers)
     [(''customerId'', JNum 5), (''filter[name]'', JStr ''x'')]
     = Inr \<lparr>req_url = ''https://example.com/api/customers/5&filter[name]=x'', req_method = ''GET'',
            req_headers = [(''Content-Type'', ''application/json''),
                           (''Accept'', ''application/json'')],
            req_body = None\<rparr>
   \<and> createServiceCall (session None None (Some (jsonResponse 200 (JObj [(''id'', JNum 1)]))))
       getCustomers [(''customerId'', JNum 5), (''filter[name]'', JStr ''x'')]
     = Inr \<lparr>error = JNull, data = JObj [(''id'', JNum 1)],
            response = jsonResponse 200 (JObj [(''id'', JNum 1)])\<rparr>"
  by code_simp

text \<open>
  Claim C1, as amended. When a call resolves, one of \<open>error\<close> and \<open>data\<close> is the decoded
  payload and the other is \<^verbatim>\<open>null\<close>. So at most one of them is not \<^verbatim>\<open>null\<close>, and exactly one
  is not \<^verbatim>\<open>null\<close> whenever the decoded payload itself is not \<^verbatim>\<open>null\<close>.
\<close>

theorem error_data_exclusive:
  assumes "createServiceCall env options input = Inr out"
  shows "\<exists>payload. getResponseProcessor (prepareOptions env options) (response out) = Some payload
           \<and> ((error out = payload \<and> data out = JNull) \<or> (data out = payload \<and> error out = JNull))
           \<and> (payload \<noteq> JNull \<longrightarrow> (error out \<noteq> JNull) \<noteq> (data out \<noteq> JNull))"
proof -
  from createServiceCall_Inr [OF assms] obtain payload where
    p: "getResponseProcessor (prepareOptions env options) (response out) = Some payload"
    and e: "error out = (if status (response out) > 399 then payload else JNull)"
    and d: "data out = (if status (response out) < 400 then payload else JNull)"
    by blast
  show ?thesis
  proof (cases "status (response out) > 399")
    case True
    with p e d show ?thesis by auto
  next
    case False
    with p e d show ?thesis by auto
  qed
qed

theorem error_data_exclusive_witness:
  "createServiceCall (session None None (Some (jsonResponse 500 (JStr ''boom'')))) logIn []
     = Inr \<lparr>error = JStr ''boom'', data = JNull, response = jsonResponse 500 (JStr ''boom'')\<rparr>
   \<and> (\<exists>payload.
         getResponseProcessor
           (prepareOptions (session None None (Some (jsonResponse 500 (JStr ''boom'')))) logIn)
           (jsonResponse 500 (JStr ''boom'')) = Some payload
       \<and> ((JStr ''boom'' = payload \<and> JNull = JNull) \<or> (JNull = payload \<and> JStr ''boom'' = JNull))
       \<and> (payload \<noteq> JNull \<longrightarrow> (JStr ''boom'' \<noteq> JNull) \<noteq> (JNull \<noteq> JNull)))"
proof -
  have run: "createServiceCall (session None None (Some (jsonResponse 500 (JStr ''boom'')))) logIn []
     = Inr \<lparr>error = JStr ''boom'', data = JNull, response = jsonResponse 500 (JStr ''boom'')\<rparr>"
    by code_simp
  from error_data_exclusive [OF run] show ?thesis
    using run by simp
qed

text \<open>
  Claim C1 as stated fails: a response with status 200 whose JSON body is \<^verbatim>\<open>null\<close> resolves
  with both \<open>error\<close> and \<open>data\<close> \<^verbatim>\<open>null\<close>.
\<close>

theorem error_data_both_null:
  "createServiceCall (session None None (Some (jsonResponse 200 JNull))) logIn []
     = Inr \<lparr>error = JNull, data = JNull, response = jsonResponse 200 JNull\<rparr>"
  by code_simp

text \<open>
  Claim C3. The decoded payload of a resolved call is classified by the status code: from
  400 upwards it is the \<open>error\<close> and \<open>data\<close> is \<^verbatim>\<open>null\<close>; below 400 it is the \<open>data\<close> and
  \<open>error\<close> is \<^verbatim>\<open>null\<close>.
\<close>

theorem status_classification:
  assumes "createServiceCall env options input = Inr out"
  shows "\<exists>payload. getResponseProcessor (prepareOptions env options) (response out) = Some payload
           \<and> (400 \<le> status (response out) \<longrightarrow> error out = payload \<and> data out = JNull)
           \<and> (status (response out) < 400 \<longrightarrow> data out = payload \<and> error out = JNull)"
  using createServiceCall_Inr [OF assms] by auto

text \<open>
  The two examples of the specification: status 404 with payload \<^verbatim>\<open>{msg: "not found"}\<close>, and
  status 200 with payload \<^verbatim>\<open>{id: 1}\<close>.
\<close>

theorem status_classification_witness:
  "createServiceCall
     (session None None (Some (jsonResponse 404 (JObj [(''msg'', JStr ''not found'')]))))
     getCustomers [(''customerId'', JNum 5)]
     = Inr \<lparr>error = JObj [(''msg'', JStr ''not found'')], data = JNull,
            response = jsonResponse 404 (JObj [(''msg'', JStr ''not found'')])\<rparr>
   \<and> createServiceCall
     (session None None (Some (jsonResponse 200 (JObj [(''id'', JNum 1)]))))
     getCustomers [(''customerId'', JNum 5)]
     = Inr \<lparr>error = JNull, data = JObj [(''id'', JNum 1)],
            response = jsonResponse 200 (JObj [(''id'', JNum 1)])\<rparr>
   \<and> (\<exists>payload.
         getResponseProcessor
           (prepareOptions
              (session None None (Some (jsonResponse 404 (JObj [(''msg'', JStr ''not found'')]))))
              getCustomers)
           (jsonResponse 404 (JObj [(''msg'', JStr ''not found'')])) = Some payload
       \<and> payload = JObj [(''msg'', JStr ''not found'')])"
proof -
  have run404: "createServiceCall
     (session None None (Some (jsonResponse 404 (JObj [(''msg'', JStr ''not found'')]))))
     getCustomers [(''customerId'', JNum 5)]
     = Inr \<lparr>error = JObj [(''msg'', JStr ''not found'')], data = JNull,
            response = jsonResponse 404 (JObj [(''msg'', JStr ''not found'')])\<rparr>"
    by code_simp
  have run200: "createServiceCall
     (session None None (Some (jsonResponse 200 (JObj [(''id'', JNum 1)]))))
     getCustomers [(''customerId'', JNum 5)]
     = Inr \<lparr>error = JNull, data = JObj [(''id'', JNum 1)],
            response = jsonResponse 200 (JObj [(''id'', JNum 1)])\<rparr>"
    by code_simp
  have st: "(400::int) \<le> status (jsonResponse 404 (JObj [(''msg'', JStr ''not found'')]))"
    by (simp add: jsonResponse_def)
  from status_classification [OF run404] st run404 run200 show ?thesis
    by auto
qed

section \<open>Header assembly\<close>

lemma createHeaders_start:
  assumes "createHeaders env options input = Inr hs"
  shows "\<exists>rest. hs =
           (''Content-Type'',
            if o_method options = ''get'' then ''x-www-form-urlencoded''
            else STRING_OPTIONS_MAP (contentType options))
         # (''Accept'', STRING_OPTIONS_MAP (acceptType options)) # rest"
  using assms
  by (auto simp: createHeaders_def Headers_append_def Let_def
           split: option.splits if_splits sum.splits)

lemma mime_not_urlencoded: "STRING_OPTIONS_MAP k \<noteq> ''x-www-form-urlencoded''"
  by (cases k) simp_all

lemma createHeaders_without_prefer:
  assumes "o_prefer options = None"
  shows "\<exists>hs. createHeaders env options input = Inr hs \<and> map_of hs ''Prefer'' = None"
  using assms
  by (auto simp: createHeaders_def Headers_append_def Let_def split: option.splits)

text \<open>
  Claim C7. The \<^verbatim>\<open>Content-Type\<close> header is the urlencoded marker exactly when the method is the
  lowercase string \<^verbatim>\<open>get\<close>, and the MIME string of \<^verbatim>\<open>contentType\<close> otherwise; the \<^verbatim>\<open>Accept\<close>
  header is the MIME string of \<^verbatim>\<open>acceptType\<close>.
\<close>

theorem content_type_and_accept:
  assumes "createHeaders env options input = Inr hs"
  shows "map_of hs ''Content-Type'' =
           Some (if o_method options = ''get'' then ''x-www-form-urlencoded''
                 else STRING_OPTIONS_MAP (contentType options))
       \<and> (map_of hs ''Content-Type'' = Some ''x-www-form-urlencoded'' \<longleftrightarrow> o_method options = ''get'')
       \<and> map_of hs ''Accept'' = Some (STRING_OPTIONS_MAP (acceptType options))"
proof -
  from createHeaders_start [OF assms] obtain rest where
    hs: "hs =
           (''Content-Type'',
            if o_method options = ''get'' then ''x-www-form-urlencoded''
            else STRING_OPTIONS_MAP (contentType options))
         # (''Accept'', STRING_OPTIONS_MAP (acceptType options)) # rest"
    by blast
  show ?thesis
    by (subst hs, subst hs, subst hs) (simp add: mime_not_urlencoded)
qed

text \<open>
  The descriptor \<^verbatim>\<open>getCustomers\<close> declares the uppercase method \<^verbatim>\<open>GET\<close>: its \<^verbatim>\<open>Content-Type\<close>
  is \<^verbatim>\<open>application/json\<close>, not the marker.
\<close>

theorem content_type_and_accept_witness:
  "createHeaders (session None None None) (prepareOptions (session None None None) getCustomers)
     \<lparr>query = JObj [], body = JObj []\<rparr>
     = Inr [(''Content-Type'', ''application/json''), (''Accept'', ''application/json'')]
   \<and> map_of [(''Content-Type'', ''application/json''), (''Accept'', ''application/json'')]
       ''Content-Type'' = Some ''application/json''
   \<and> o_method (prepareOptions (session None None None) getCustomers) = ''GET''"
proof -
  have run: "createHeaders (session None None None)
      (prepareOptions (session None None None) getCustomers) \<lparr>query = JObj [], body = JObj []\<rparr>
     = Inr [(''Content-Type'', ''application/json''), (''Accept'', ''application/json'')]"
    by code_simp
  have m: "o_method (prepareOptions (session None None None) getCustomers) = ''GET''"
    by code_simp
  from content_type_and_accept [OF run] run m show ?thesis
    by simp
qed

text \<open>
  Claim C5, as amended. Whenever the session token store holds an access token that is
  neither \<^verbatim>\<open>null\<close> nor the empty string, the assembled headers contain
  \<^verbatim>\<open>Authorization: Bearer <accessToken>\<close> and \<^verbatim>\<open>x-id-token: <idToken>\<close> (the text \<^verbatim>\<open>null\<close> when
  no id token is stored), whatever the options' \<^verbatim>\<open>usesAccessToken\<close> and \<^verbatim>\<open>usesIdToken\<close> are.
\<close>

theorem token_headers:
  assumes "sessionStorage env ''accessToken'' = Some t" and "t \<noteq> []"
    and "createHeaders env options input = Inr hs"
  shows "map_of hs ''Authorization'' = Some (''Bearer '' @ t)
       \<and> map_of hs ''x-id-token'' = Some (nullable (sessionStorage env ''idToken''))"
  using assms
  by (auto simp: createHeaders_def Headers_append_def Let_def
           split: option.splits if_splits sum.splits)

text \<open>The descriptor \<^verbatim>\<open>logIn\<close> declares both flags \<^verbatim>\<open>false\<close>; the tokens are attached all the same.\<close>

theorem token_headers_witness:
  "sessionStorage (session (Some ''abc'') (Some ''id-1'') None) ''accessToken'' = Some ''abc''
   \<and> ''abc'' \<noteq> []
   \<and> d_usesAccessToken logIn = Some False
   \<and> createHeaders (session (Some ''abc'') (Some ''id-1'') None)
        (prepareOptions (session (Some ''abc'') (Some ''id-1'') None) logIn
           \<lparr>usesAccessToken := False, usesIdToken := False\<rparr>)
        \<lparr>query = JObj [], body = JObj []\<rparr>
      = Inr [(''Content-Type'', ''application/json''), (''Accept'', ''application/json''),
             (''Authorization'', ''Bearer abc''), (''x-id-token'', ''id-1'')]
   \<and> map_of [(''Content-Type'', ''application/json''), (''Accept'', ''application/json''),
             (''Authorization'', ''Bearer abc''), (''x-id-token'', ''id-1'')] ''Authorization''
      = Some (''Bearer '' @ ''abc'')"
proof -
  have tok: "sessionStorage (session (Some ''abc'') (Some ''id-1'') None) ''accessToken'' = Some ''abc''"
    by code_simp
  have ne: "''abc'' \<noteq> []" by simp
  have flag: "d_usesAccessToken logIn = Some False"
    by code_simp
  have run: "createHeaders (session (Some ''abc'') (Some ''id-1'') None)
        (prepareOptions (session (Some ''abc'') (Some ''id-1'') None) logIn
           \<lparr>usesAccessToken := False, usesIdToken := False\<rparr>)
        \<lparr>query = JObj [], body = JObj []\<rparr>
      = Inr [(''Content-Type'', ''application/json''), (''Accept'', ''application/json''),
             (''Authorization'', ''Bearer abc''), (''x-id-token'', ''id-1'')]"
    by code_simp
  from token_headers [OF tok ne run] tok flag run show ?thesis
    by simp
qed

text \<open>
  Claim C5 as stated fails: an access token stored as the empty string is not \<^verbatim>\<open>null\<close>, and
  neither header is attached.
\<close>

theorem empty_access_token_no_headers:
  "sessionStorage (session (Some '''') (Some ''id-1'') None) ''accessToken'' = Some ''''
   \<and> createHeaders (session (Some '''') (Some ''id-1'') None)
        (prepareOptions (session (Some '''') (Some ''id-1'') None) getCustomers)
        \<lparr>query = JObj [], body = JObj []\<rparr>
      = Inr [(''Content-Type'', ''application/json''), (''Accept'', ''application/json'')]"
  by code_simp

section \<open>URL building\<close>

text \<open>
  Claim C9. With an empty query mapping the URL builder returns \<^verbatim>\<open>baseUrl + path\<close>
  unchanged, for every base URL and path.
\<close>

theorem empty_query_url:
  "createUrl env (options\<lparr>baseUrl := Some b, path := p\<rparr>) \<lparr>query = JObj [], body = bd\<rparr>
     = Inr (b @ p)"
  by (simp add: createUrl_def initialUrl_def encodeQuery_def)

lemma findSplit_Some:
  "findSplit pat s = Some (b, a) \<Longrightarrow> s = b @ pat @ a"
proof (induction s arbitrary: b)
  case Nil
  then show ?case by (simp split: if_splits)
next
  case (Cons c cs)
  show ?case
  proof (cases "take (length pat) (c # cs) = pat")
    case True
    with Cons.prems have "b = []" and "a = drop (length pat) (c # cs)" by simp_all
    with True show ?thesis
      using append_take_drop_id [of "length pat" "c # cs"] by simp
  next
    case False
    with Cons.prems obtain b' where "findSplit pat cs = Some (b', a)" and "b = c # b'"
      by (auto split: option.splits)
    with Cons.IH show ?thesis by simp
  qed
qed

lemma findSplit_None:
  "findSplit pat s = None \<Longrightarrow> s \<noteq> b @ pat @ a"
proof (induction s arbitrary: b)
  case Nil
  then show ?case by (simp split: if_splits)
next
  case (Cons c cs)
  from Cons.prems have no: "take (length pat) (c # cs) \<noteq> pat" and rest: "findSplit pat cs = None"
    by (auto split: if_splits option.splits)
  show ?case
  proof
    assume eq: "c # cs = b @ pat @ a"
    show False
    proof (cases b)
      case Nil
      with eq have "take (length pat) (c # cs) = pat" by simp
      with no show False by simp
    next
      case (Cons c' b')
      with eq have "cs = b' @ pat @ a" by simp
      with Cons.IH [OF rest, of b'] show False by simp
    qed
  qed
qed

lemma code_less_256: "code c < 256"
  by (simp add: code_def)

lemma hex_upper_not_dollar: "d < 16 \<Longrightarrow> hex_upper d \<noteq> CHR ''$''"
proof
  assume d: "d < 16" and h: "hex_upper d = CHR ''$''"
  from h have "code (hex_upper d) = 36" by (simp add: code_def)
  with d show False
    by (auto simp: hex_upper_def code_def split: if_splits)
qed

lemma percent_no_dollar:
  assumes "b < 256"
  shows "CHR ''$'' \<notin> set (percent b)"
proof -
  from assms have hi: "b div 16 < 16" by simp
  have lo: "b mod 16 < 16" by simp
  show ?thesis
    using hex_upper_not_dollar [OF hi] hex_upper_not_dollar [OF lo]
    by (auto simp: percent_def)
qed

lemma not_unescaped_dollar: "\<not> uriUnescaped (CHR ''$'')"
  by (simp add: uriUnescaped_def isAlpha_def isDigit_def code_def)

lemma encodeChar_no_dollar: "CHR ''$'' \<notin> set (encodeChar c)"
proof (cases "uriUnescaped c")
  case True
  then have "c \<noteq> CHR ''$''" using not_unescaped_dollar by auto
  with True show ?thesis by (simp add: encodeChar_def)
next
  case False
  have "code c div 64 < 4" using code_less_256 [of c] by simp
  then have a: "192 + code c div 64 < 256" by simp
  have b: "128 + code c mod 64 < 256" by simp
  show ?thesis
    using False percent_no_dollar [OF a] percent_no_dollar [OF b]
      percent_no_dollar [OF code_less_256 [of c]]
    by (simp add: encodeChar_def)
qed

lemma encodeURIComponent_no_dollar: "CHR ''$'' \<notin> set (encodeURIComponent s)"
  by (induction s) (simp_all add: encodeURIComponent_def encodeChar_no_dollar)

lemma getSubstitution_plain:
  "CHR ''$'' \<notin> set r \<Longrightarrow> getSubstitution b m a r = r"
  by (induction b m a r rule: getSubstitution.induct) auto

lemma handleQueryPiece_literal:
  assumes "literalKey k" and "CHR ''$'' \<notin> set v"
  shows "handleQueryPiece env url (k, v) = Inr (specQueryStep url (k, v))"
  using assms
  by (auto simp: handleQueryPiece_def specQueryStep_def literalKey_def matchPlaceholder_def
        injectVariable_def String_replace_def getSubstitution_plain Let_def
      split: option.splits)

lemma reduce_literal:
  assumes "\<forall>kv \<in> set es. literalKey (fst kv) \<and> CHR ''$'' \<notin> set (snd kv)"
  shows "reduce (handleQueryPiece env) url es = Inr (foldl specQueryStep url es)"
  using assms
proof (induction es arbitrary: url)
  case Nil
  show ?case by simp
next
  case (Cons kv es)
  obtain k v where kv: "kv = (k, v)" by (cases kv)
  from Cons.prems kv have "literalKey k" and "CHR ''$'' \<notin> set v" by auto
  then have step: "handleQueryPiece env url (k, v) = Inr (specQueryStep url (k, v))"
    by (rule handleQueryPiece_literal)
  from Cons.prems have rest: "\<forall>kv \<in> set es. literalKey (fst kv) \<and> CHR ''$'' \<notin> set (snd kv)"
    by simp
  show ?case
    using Cons.IH [OF rest] step kv by simp
qed

lemma encodeQuery_literal:
  assumes "list_all (\<lambda>kv. literalKey (fst kv)) q"
  shows "\<forall>kv \<in> set (encodeQuery q). literalKey (fst kv) \<and> CHR ''$'' \<notin> set (snd kv)"
  using assms
  by (auto simp: encodeQuery_def list_all_iff encodeURIComponent_no_dollar)

text \<open>
  The URL builder throws only where the platform does: on a key that is a braced
  quantifier, or on a key with operators that the engine refuses to compile.
\<close>

lemma handleQueryPiece_throws:
  assumes "handleQueryPiece env url (k, v) = Inl e"
  shows "(isBracedQuantifier k \<and> e = SyntaxError)
       \<or> (list_ex isSyntaxChar k \<and> regexSearch env (placeholder k) url = Inl e)"
  using assms
  by (auto simp: handleQueryPiece_def matchPlaceholder_def Let_def split: if_splits sum.splits)

lemma handleQueryPiece_engine:
  assumes "\<not> isBracedQuantifier k" and "list_ex isSyntaxChar k"
    and "regexSearch env (placeholder k) url = Inr found"
  shows "handleQueryPiece env url (k, v) =
           Inr (if found then String_replace url (placeholder k) v
                else url @ ''&'' @ k @ ''='' @ v)"
  using assms
  by (simp add: handleQueryPiece_def matchPlaceholder_def injectVariable_def)

text \<open>
  On query mappings whose keys are literal, the URL builder computes what the
  specification describes.
\<close>

lemma createUrl_literal_keys:
  assumes "list_all (\<lambda>kv. literalKey (fst kv)) q"
  shows "createUrl env options \<lparr>query = JObj q, body = b\<rparr> = Inr (specCreateUrl options q)"
  using reduce_literal [OF encodeQuery_literal [OF assms]]
  by (simp add: createUrl_def specCreateUrl_def)

text \<open>The example of the specification: path \<^verbatim>\<open>/api/x/{id}\<close>, query \<^verbatim>\<open>{id: 5, foo: "a b"}\<close>.\<close>

lemma createUrl_example:
  "createUrl (session None None None)
     ((prepareOptions (session None None None) getCustomers) \<lparr>path := ''/api/x/{id}''\<rparr>)
     \<lparr>query = JObj [(''id'', JNum 5), (''foo'', JStr ''a b'')], body = JObj []\<rparr>
   = Inr ''https://example.com/api/x/5&foo=a%20b''"
  by code_simp

text \<open>
  Claim C4 fails on the code for a key made of digits. The comment above the fold in
  \<^verbatim>\<open>createUrl\<close> and the claim both say that \<^verbatim>\<open>&1=x\<close> is appended when the URL has no token
  \<^verbatim>\<open>{1}\<close>; the code compiles \<^verbatim>\<open>{1}\<close> as a regular expression, which throws.
\<close>

theorem createUrl_digit_key_throws:
  "createUrl (session None None None) (prepareOptions (session None None None) getCustomers)
     \<lparr>query = JObj [(''1'', JStr ''x'')], body = JObj []\<rparr>
   = Inl SyntaxError"
  by code_simp

section \<open>Input normalisation\<close>

text \<open>
  Claim C6, as amended. The prepared input always has a \<open>query\<close> and a \<open>body\<close>. If the raw
  input's \<^verbatim>\<open>query\<close> or \<^verbatim>\<open>body\<close> property is truthy, each truthy one is used and the other one
  (missing or falsy) is replaced by the empty mapping. If neither is truthy, the whole raw
  input becomes the \<open>query\<close> when the method is \<^verbatim>\<open>GET\<close>, with an empty \<open>body\<close>, and the
  \<open>body\<close> for every other method, with an empty \<open>query\<close>.
\<close>

theorem prepareInput_cases:
  "(truthy (ownProp input ''body'') \<or> truthy (ownProp input ''query'') \<longrightarrow>
      query (prepareInput options input) =
        (if truthy (ownProp input ''query'') then ownProp input ''query'' else JObj [])
    \<and> body (prepareInput options input) =
        (if truthy (ownProp input ''body'') then ownProp input ''body'' else JObj []))
   \<and> (\<not> truthy (ownProp input ''body'') \<and> \<not> truthy (ownProp input ''query'') \<longrightarrow>
        (o_method options = ''GET'' \<longrightarrow>
           prepareInput options input = \<lparr>query = JObj input, body = JObj []\<rparr>)
      \<and> (o_method options \<noteq> ''GET'' \<longrightarrow>
           prepareInput options input = \<lparr>query = JObj [], body = JObj input\<rparr>))
   \<and> truthy (query (prepareInput options input))
   \<and> truthy (body (prepareInput options input))"
  by (simp add: prepareInput_def js_or_def)

text \<open>
  The examples of the specification: the raw input \<^verbatim>\<open>{customerId: 5}\<close> goes to the \<open>query\<close>
  of the \<^verbatim>\<open>GET\<close> descriptor \<^verbatim>\<open>getCustomers\<close> and to the \<open>body\<close> of the \<^verbatim>\<open>POST\<close> descriptor
  \<^verbatim>\<open>logIn\<close>; an input with a \<^verbatim>\<open>body\<close> object keeps it and gets an empty \<open>query\<close>.
\<close>

theorem prepareInput_cases_witness:
  "prepareInput (prepareOptions (session None None None) getCustomers) [(''customerId'', JNum 5)]
     = \<lparr>query = JObj [(''customerId'', JNum 5)], body = JObj []\<rparr>
   \<and> prepareInput (prepareOptions (session None None None) logIn) [(''customerId'', JNum 5)]
     = \<lparr>query = JObj [], body = JObj [(''customerId'', JNum 5)]\<rparr>
   \<and> prepareInput (prepareOptions (session None None None) logIn)
       [(''body'', JObj [(''user'', JStr ''ann'')])]
     = \<lparr>query = JObj [], body = JObj [(''user'', JStr ''ann'')]\<rparr>"
proof -
  have f: "\<not> truthy (ownProp [(''customerId'', JNum 5)] ''body'')
         \<and> \<not> truthy (ownProp [(''customerId'', JNum 5)] ''query'')"
    by code_simp
  have g: "o_method (prepareOptions (session None None None) getCustomers) = ''GET''"
    by code_simp
  have p: "o_method (prepareOptions (session None None None) logIn) \<noteq> ''GET''"
    by code_simp
  have t: "truthy (ownProp [(''body'', JObj [(''user'', JStr ''ann'')])] ''body'')"
    by code_simp
  have q: "ownProp [(''body'', JObj [(''user'', JStr ''ann'')])] ''query'' = JUndefined"
    by code_simp
  have b: "ownProp [(''body'', JObj [(''user'', JStr ''ann'')])] ''body'' = JObj [(''user'', JStr ''ann'')]"
    by code_simp
  have c1: "prepareInput (prepareOptions (session None None None) getCustomers)
       [(''customerId'', JNum 5)]
     = \<lparr>query = JObj [(''customerId'', JNum 5)], body = JObj []\<rparr>"
    using prepareInput_cases
      [of "[(''customerId'', JNum 5)]" "prepareOptions (session None None None) getCustomers"]
      f g
    by blast
  have c2: "prepareInput (prepareOptions (session None None None) logIn)
       [(''customerId'', JNum 5)]
     = \<lparr>query = JObj [], body = JObj [(''customerId'', JNum 5)]\<rparr>"
    using prepareInput_cases
      [of "[(''customerId'', JNum 5)]" "prepareOptions (session None None None) logIn"]
      f p
    by blast
  have c3: "prepareInput (prepareOptions (session None None None) logIn)
       [(''body'', JObj [(''user'', JStr ''ann'')])]
     = \<lparr>query = JObj [], body = JObj [(''user'', JStr ''ann'')]\<rparr>"
    using prepareInput_cases
      [of "[(''body'', JObj [(''user'', JStr ''ann'')])]"
          "prepareOptions (session None None None) logIn"]
      t q b
    by (cases "prepareInput (prepareOptions (session None None None) logIn)
                 [(''body'', JObj [(''user'', JStr ''ann'')])]") simp
  from c1 c2 c3 show ?thesis by blast
qed

text \<open>
  Claim C6 as stated fails: the raw input \<^verbatim>\<open>{query: ""}\<close> has a \<^verbatim>\<open>query\<close> key, yet that key is
  not used as the \<open>query\<close>; the whole raw input is.
\<close>

theorem falsy_query_key_not_used:
  "map_of [(''query'', JStr '''')] ''query'' = Some (JStr '''')
   \<and> prepareInput (prepareOptions (session None None None) getCustomers) [(''query'', JStr '''')]
     = \<lparr>query = JObj [(''query'', JStr '''')], body = JObj []\<rparr>
   \<and> query (prepareInput (prepareOptions (session None None None) getCustomers)
        [(''query'', JStr '''')]) \<noteq> JStr ''''"
  by code_simp

section \<open>Request body\<close>

lemma show_nat_not_Nil: "show_nat n \<noteq> []"
  by (subst show_nat.simps) simp

lemma JSON_stringify_not_Nil: "JSON_stringify v = Some s \<Longrightarrow> s \<noteq> []"
  by (cases v) (auto simp: show_int_def show_nat_not_Nil jsonQuote_def split: if_splits)

lemma JSON_stringify_defined: "v \<noteq> JUndefined \<Longrightarrow> \<exists>s. JSON_stringify v = Some s"
  by (cases v) simp_all

lemma prepareInput_body_defined: "body (prepareInput options input) \<noteq> JUndefined"
  by (auto simp: prepareInput_def js_or_def)

lemma serviceRequest_body:
  assumes "serviceRequest env options input = Inr request"
  shows "req_body request =
           (case createBody env (prepareInput options input) of
              None \<Rightarrow> None
            | Some b \<Rightarrow> if b \<noteq> [] then Some b else None)"
  using assms
  by (auto simp: serviceRequest_def createRequest_def Let_def split: sum.splits)

lemma serviceRequest_body_cases:
  assumes "serviceRequest env options input = Inr request"
  shows "(isEmpty env (body (prepareInput options input)) \<longrightarrow> req_body request = None)
       \<and> (\<not> isEmpty env (body (prepareInput options input)) \<longrightarrow>
            (\<exists>json. JSON_stringify (body (prepareInput options input)) = Some json
                   \<and> req_body request = Some json))"
proof (intro conjI impI)
  assume "isEmpty env (body (prepareInput options input))"
  then show "req_body request = None"
    using serviceRequest_body [OF assms] by (simp add: createBody_def)
next
  assume ne: "\<not> isEmpty env (body (prepareInput options input))"
  from JSON_stringify_defined [OF prepareInput_body_defined] obtain json where
    j: "JSON_stringify (body (prepareInput options input)) = Some json"
    by blast
  from JSON_stringify_not_Nil [OF j] have "json \<noteq> []" .
  with ne j have "req_body request = Some json"
    using serviceRequest_body [OF assms] by (simp add: createBody_def)
  with j show "\<exists>json. JSON_stringify (body (prepareInput options input)) = Some json
                   \<and> req_body request = Some json"
    by blast
qed

text \<open>
  Claim C8, as amended. If the prepared body is empty under the test of the package
  \<^verbatim>\<open>is-empty\<close>, the request has no body attribute; otherwise its body is the JSON text of the
  prepared body. That test looks at the top level only: a body object goes unsent exactly
  when it has no property of its own.
\<close>

theorem request_body:
  assumes "serviceRequest env options input = Inr request"
  shows "(isEmpty env (body (prepareInput options input)) \<longrightarrow> req_body request = None)
       \<and> (\<not> isEmpty env (body (prepareInput options input)) \<longrightarrow>
            (\<exists>json. JSON_stringify (body (prepareInput options input)) = Some json
                   \<and> req_body request = Some json))
       \<and> (isEmpty env = isEmptyPackage \<longrightarrow>
            (\<forall>kvs. body (prepareInput options input) = JObj kvs \<longrightarrow>
                   (req_body request = None \<longleftrightarrow> kvs = [])))"
proof (intro conjI)
  show "isEmpty env (body (prepareInput options input)) \<longrightarrow> req_body request = None"
    using serviceRequest_body_cases [OF assms] by blast
  show "\<not> isEmpty env (body (prepareInput options input)) \<longrightarrow>
            (\<exists>json. JSON_stringify (body (prepareInput options input)) = Some json
                   \<and> req_body request = Some json)"
    using serviceRequest_body_cases [OF assms] by blast
  show "isEmpty env = isEmptyPackage \<longrightarrow>
            (\<forall>kvs. body (prepareInput options input) = JObj kvs \<longrightarrow>
                   (req_body request = None \<longleftrightarrow> kvs = []))"
  proof (intro impI allI)
    fix kvs
    assume pkg: "isEmpty env = isEmptyPackage"
      and obj: "body (prepareInput options input) = JObj kvs"
    from pkg obj have e: "isEmpty env (body (prepareInput options input)) \<longleftrightarrow> kvs = []"
      by simp
    show "req_body request = None \<longleftrightarrow> kvs = []"
    proof (cases "kvs = []")
      case True
      with e serviceRequest_body_cases [OF assms] show ?thesis by blast
    next
      case False
      with e serviceRequest_body_cases [OF assms] obtain json where
        "req_body request = Some json"
        by blast
      with False show ?thesis by simp
    qed
  qed
qed

text \<open>
  The examples of the specification, on the \<^verbatim>\<open>POST\<close> descriptor \<^verbatim>\<open>logIn\<close>: the body \<^verbatim>\<open>{}\<close> is
  not sent, the body \<^verbatim>\<open>{a: 1}\<close> is sent as the text \<^verbatim>\<open>{"a":1}\<close>.
\<close>

theorem request_body_witness:
  "serviceRequest (session None None None) (prepareOptions (session None None None) logIn) []
     = Inr \<lparr>req_url = ''https://example.com/api/login'', req_method = ''POST'',
            req_headers = [(''Content-Type'', ''application/json''),
                           (''Accept'', ''application/json'')],
            req_body = None\<rparr>
   \<and> serviceRequest (session None None None) (prepareOptions (session None None None) logIn)
       [(''a'', JNum 1)]
     = Inr \<lparr>req_url = ''https://example.com/api/login'', req_method = ''POST'',
            req_headers = [(''Content-Type'', ''application/json''),
                           (''Accept'', ''application/json'')],
            req_body = Some [CHR ''{'', CHR 0x22, CHR ''a'', CHR 0x22, CHR '':'', CHR ''1'', CHR ''}'']\<rparr>
   \<and> JSON_stringify
       (body (prepareInput (prepareOptions (session None None None) logIn) [(''a'', JNum 1)]))
     = Some [CHR ''{'', CHR 0x22, CHR ''a'', CHR 0x22, CHR '':'', CHR ''1'', CHR ''}'']
   \<and> isEmpty (session None None None) = isEmptyPackage
   \<and> body (prepareInput (prepareOptions (session None None None) logIn) [(''a'', JNum 1)])
     = JObj [(''a'', JNum 1)]"
proof -
  have run0: "serviceRequest (session None None None)
       (prepareOptions (session None None None) logIn) []
     = Inr \<lparr>req_url = ''https://example.com/api/login'', req_method = ''POST'',
            req_headers = [(''Content-Type'', ''application/json''),
                           (''Accept'', ''application/json'')],
            req_body = None\<rparr>"
    by code_simp
  have run1: "serviceRequest (session None None None)
       (prepareOptions (session None None None) logIn) [(''a'', JNum 1)]
     = Inr \<lparr>req_url = ''https://example.com/api/login'', req_method = ''POST'',
            req_headers = [(''Content-Type'', ''application/json''),
                           (''Accept'', ''application/json'')],
            req_body = Some [CHR ''{'', CHR 0x22, CHR ''a'', CHR 0x22, CHR '':'', CHR ''1'', CHR ''}'']\<rparr>"
    by code_simp
  have ne: "\<not> isEmpty (session None None None)
       (body (prepareInput (prepareOptions (session None None None) logIn) [(''a'', JNum 1)]))"
    by code_simp
  have pkg: "isEmpty (session None None None) = isEmptyPackage"
    by (simp add: session_def)
  have obj: "body (prepareInput (prepareOptions (session None None None) logIn) [(''a'', JNum 1)])
     = JObj [(''a'', JNum 1)]"
    by code_simp
  from request_body [OF run1] ne pkg obj run0 run1 show ?thesis
    by auto
qed

text \<open>
  Claim C8 as stated fails: the body \<^verbatim>\<open>{a: {}}\<close> is deeply empty, and it is sent, as the
  text \<^verbatim>\<open>{"a":{}}\<close>.
\<close>

theorem nested_empty_body_sent:
  "deepEmpty (body (prepareInput (prepareOptions (session None None None) logIn)
     [(''a'', JObj [])]))
   \<and> serviceRequest (session None None None) (prepareOptions (session None None None) logIn)
       [(''a'', JObj [])]
     = Inr \<lparr>req_url = ''https://example.com/api/login'', req_method = ''POST'',
            req_headers = [(''Content-Type'', ''application/json''),
                           (''Accept'', ''application/json'')],
            req_body = Some [CHR ''{'', CHR 0x22, CHR ''a'', CHR 0x22, CHR '':'', CHR ''{'', CHR ''}'',
                             CHR ''}'']\<rparr>"
  by code_simp

section \<open>Prepared options\<close>

lemma serviceRequest_no_prefer:
  assumes "serviceRequest env (prepareOptions env d) input = Inr request"
  shows "map_of (req_headers request) ''Prefer'' = None"
proof -
  have "o_prefer (prepareOptions env d) = None"
    by (simp add: prepareOptions_def)
  from createHeaders_without_prefer [OF this, of env "prepareInput (prepareOptions env d) input"]
  obtain hs where
    "createHeaders env (prepareOptions env d) (prepareInput (prepareOptions env d) input) = Inr hs"
    and "map_of hs ''Prefer'' = None"
    by blast
  with assms show ?thesis
    by (auto simp: serviceRequest_def createRequest_def Let_def split: sum.splits)
qed

text \<open>
  Claim C10. A call runs on the output of \<^verbatim>\<open>prepareOptions\<close>. There \<^verbatim>\<open>usesAccessToken\<close> and
  \<^verbatim>\<open>usesIdToken\<close> are true whatever the descriptor says; a missing or falsy field is
  defaulted: the method to \<^verbatim>\<open>POST\<close>, the accept and content types to \<^verbatim>\<open>json\<close>, the base URL
  to the value of \<^verbatim>\<open>AUTH_URL\<close>, the path to the empty string; every other field value is
  kept; and there is no \<^verbatim>\<open>prefer\<close> template, even when the descriptor declares one.
\<close>

theorem prepared_options:
  "createServiceCall env d input = serviceCall env (prepareOptions env d) input
   \<and> usesAccessToken (prepareOptions env d)
   \<and> usesIdToken (prepareOptions env d)
   \<and> o_prefer (prepareOptions env d) = None
   \<and> (d_method d = None \<or> d_method d = Some [] \<longrightarrow> o_method (prepareOptions env d) = ''POST'')
   \<and> (\<forall>m. d_method d = Some m \<and> m \<noteq> [] \<longrightarrow> o_method (prepareOptions env d) = m)
   \<and> (d_acceptType d = None \<longrightarrow> acceptType (prepareOptions env d) = Json)
   \<and> (\<forall>a. d_acceptType d = Some a \<longrightarrow> acceptType (prepareOptions env d) = a)
   \<and> (d_contentType d = None \<longrightarrow> contentType (prepareOptions env d) = Json)
   \<and> (\<forall>c. d_contentType d = Some c \<longrightarrow> contentType (prepareOptions env d) = c)
   \<and> (d_baseUrl d = None \<or> d_baseUrl d = Some [] \<longrightarrow> baseUrl (prepareOptions env d) = AUTH_URL env)
   \<and> (\<forall>b. d_baseUrl d = Some b \<and> b \<noteq> [] \<longrightarrow> baseUrl (prepareOptions env d) = Some b)
   \<and> (d_path d = None \<longrightarrow> path (prepareOptions env d) = [])
   \<and> (\<forall>p. d_path d = Some p \<longrightarrow> path (prepareOptions env d) = p)"
proof (intro conjI)
  show "createServiceCall env d input = serviceCall env (prepareOptions env d) input"
    by (simp add: createServiceCall_def)
  show "usesAccessToken (prepareOptions env d)"
    by (simp add: prepareOptions_def orBool_def split: option.splits)
  show "usesIdToken (prepareOptions env d)"
    by (simp add: prepareOptions_def orBool_def split: option.splits)
  show "o_prefer (prepareOptions env d) = None"
    by (simp add: prepareOptions_def)
  show "d_method d = None \<or> d_method d = Some [] \<longrightarrow> o_method (prepareOptions env d) = ''POST''"
    by (auto simp: prepareOptions_def orString_def)
  show "\<forall>m. d_method d = Some m \<and> m \<noteq> [] \<longrightarrow> o_method (prepareOptions env d) = m"
    by (simp add: prepareOptions_def orString_def)
  show "d_acceptType d = None \<longrightarrow> acceptType (prepareOptions env d) = Json"
    by (simp add: prepareOptions_def orKey_def)
  show "\<forall>a. d_acceptType d = Some a \<longrightarrow> acceptType (prepareOptions env d) = a"
    by (simp add: prepareOptions_def orKey_def)
  show "d_contentType d = None \<longrightarrow> contentType (prepareOptions env d) = Json"
    by (simp add: prepareOptions_def orKey_def)
  show "\<forall>c. d_contentType d = Some c \<longrightarrow> contentType (prepareOptions env d) = c"
    by (simp add: prepareOptions_def orKey_def)
  show "d_baseUrl d = None \<or> d_baseUrl d = Some [] \<longrightarrow> baseUrl (prepareOptions env d) = AUTH_URL env"
    by (auto simp: prepareOptions_def)
  show "\<forall>b. d_baseUrl d = Some b \<and> b \<noteq> [] \<longrightarrow> baseUrl (prepareOptions env d) = Some b"
    by (simp add: prepareOptions_def)
  show "d_path d = None \<longrightarrow> path (prepareOptions env d) = []"
    by (simp add: prepareOptions_def orString_def)
  show "\<forall>p. d_path d = Some p \<longrightarrow> path (prepareOptions env d) = p"
    by (simp add: prepareOptions_def orString_def)
qed

text \<open>
  On a descriptor that sets \<^verbatim>\<open>usesAccessToken\<close> to \<^verbatim>\<open>false\<close>, declares a template and leaves
  the other fields missing or empty, in an environment whose \<^verbatim>\<open>AUTH_URL\<close> is set.
\<close>

theorem prepared_options_witness:
  "d_usesAccessToken sparseDescriptor = Some False
   \<and> d_prefer sparseDescriptor = Some ''example=populated''
   \<and> prepareOptions ((session None None None) \<lparr>AUTH_URL := Some ''https://auth.example.com''\<rparr>)
       sparseDescriptor
     = \<lparr>name = Some ''sparse'', baseUrl = Some ''https://auth.example.com'', path = [],
        usesAccessToken = True, usesIdToken = True, acceptType = Json, contentType = Json,
        o_method = ''POST'', o_prefer = None\<rparr>"
proof -
  let ?env = "(session None None None) \<lparr>AUTH_URL := Some ''https://auth.example.com''\<rparr>"
  have d: "d_usesAccessToken sparseDescriptor = Some False"
    "d_prefer sparseDescriptor = Some ''example=populated''"
    "d_method sparseDescriptor = Some []"
    "d_acceptType sparseDescriptor = None"
    "d_contentType sparseDescriptor = None"
    "d_baseUrl sparseDescriptor = None"
    "d_path sparseDescriptor = None"
    "d_name sparseDescriptor = Some ''sparse''"
    by (simp_all add: sparseDescriptor_def)
  have a: "AUTH_URL ?env = Some ''https://auth.example.com''"
    by (simp add: session_def)
  have n: "name (prepareOptions ?env sparseDescriptor) = Some ''sparse''"
    by (simp add: prepareOptions_def d)
  from prepared_options [of ?env sparseDescriptor "[]"] d a
  have "usesAccessToken (prepareOptions ?env sparseDescriptor)"
    and "usesIdToken (prepareOptions ?env sparseDescriptor)"
    and "o_prefer (prepareOptions ?env sparseDescriptor) = None"
    and "o_method (prepareOptions ?env sparseDescriptor) = ''POST''"
    and "acceptType (prepareOptions ?env sparseDescriptor) = Json"
    and "contentType (prepareOptions ?env sparseDescriptor) = Json"
    and "baseUrl (prepareOptions ?env sparseDescriptor) = Some ''https://auth.example.com''"
    and "path (prepareOptions ?env sparseDescriptor) = []"
    by simp_all
  with n have "prepareOptions ?env sparseDescriptor
     = \<lparr>name = Some ''sparse'', baseUrl = Some ''https://auth.example.com'', path = [],
        usesAccessToken = True, usesIdToken = True, acceptType = Json, contentType = Json,
        o_method = ''POST'', o_prefer = None\<rparr>"
    by (cases "prepareOptions ?env sparseDescriptor") simp
  with d show ?thesis by simp
qed

section \<open>The Prefer header\<close>

text \<open>The templater replaces each token by the query's value, or by \<^verbatim>\<open>undefined\<close>.\<close>

lemma handlePreferHeader_example:
  "handlePreferHeader ''example={customerId}'' (JObj [(''customerId'', JNum 5)]) = Inr ''example=5''
   \<and> handlePreferHeader ''example={customerId}'' (JObj []) = Inr ''example=undefined''"
  by code_simp

text \<open>Options that still carry the template of \<^verbatim>\<open>getCustomerProfile\<close> get a \<^verbatim>\<open>Prefer\<close> header.\<close>

lemma createHeaders_with_prefer:
  "createHeaders (session None None None)
     ((prepareOptions (session None None None) getCustomerProfile)
        \<lparr>o_prefer := d_prefer getCustomerProfile\<rparr>)
     \<lparr>query = JObj [(''customerId'', JNum 5), (''locationId'', JNum 7)], body = JObj []\<rparr>
   = Inr [(''Content-Type'', ''application/json''), (''Accept'', ''application/json''),
          (''Prefer'', ''example=5'')]"
  by code_simp

text \<open>
  Claim C2 fails on the code: \<^verbatim>\<open>getCustomerProfile\<close> declares the template
  \<^verbatim>\<open>example={customerId}\<close>, and the request of a call carries no \<^verbatim>\<open>Prefer\<close> header, because
  \<^verbatim>\<open>prepareOptions\<close> does not copy the template.
\<close>

theorem prefer_header_not_attached:
  "d_prefer getCustomerProfile = Some ''example={customerId}''
   \<and> serviceRequest (session None None None)
       (prepareOptions (session None None None) getCustomerProfile)
       [(''customerId'', JNum 5), (''locationId'', JNum 7)]
     = Inr \<lparr>req_url = ''https://example.com/api/customers/5/location/7'', req_method = ''GET'',
            req_headers = [(''Content-Type'', ''application/json''),
                           (''Accept'', ''application/json'')],
            req_body = None\<rparr>"
  by code_simp

end
